theory Spec2Isabelle
  imports
    Main
    "HOL-Library.Multiset"
    "HOL-Library.Sublist"
    "HOL-Library.Product_Lexorder"
begin

section \<open>The entities of \<^verbatim>\<open>Cookbook/models.py\<close>\<close>

text \<open>
  Every model class is a record of its declared fields, preceded by the primary key
  \<^verbatim>\<open>id\<close> that the framework adds. Field names carry a short prefix where two classes
  use the same name (\<^verbatim>\<open>name\<close>, \<^verbatim>\<open>priority\<close>, ...). Integer fields are Python ints,
  a foreign key is the primary key it stores (\<^verbatim>\<open>cookbook_id\<close>, ...), and a
  \<^verbatim>\<open>DurationField\<close> is a number of seconds. The two audit time stamps that
  \<^verbatim>\<open>TimeStampedModel\<close> contributes are declared outside this file and take no part
  in any operation below; they are left out.

  An instance is a record that carries a primary key, that is, an object that was
  loaded from the store or saved to it.
\<close>

record CookbookTag =
  tag_pk :: nat
  tag_name :: string
  tag_priority :: int
  cookbook_sum :: int

record Material =
  m_pk :: nat
  m_name :: string
  m_detail :: string
  m_type :: int
  m_img_url :: string

record Step =
  s_pk :: nat
  s_name :: string
  s_detail :: string
  s_priority :: int
  s_img_url :: string
  duration :: int
  s_cookbook_id :: nat

record Cookbook =
  c_pk :: nat
  c_name :: string
  url_video :: string
  url_cover_image :: string
  description :: string
  checked :: bool

record TagCookbookRelationship =
  tcr_pk :: nat
  tcr_cookbook_id :: nat
  tcr_tag_id :: nat
  like :: int
  unlike :: int

record MaterialStepRelationship =
  msr_pk :: nat
  msr_step_id :: nat
  msr_material_id :: nat
  amount :: string
  msr_priority :: int

text \<open>
  The store: one table per model class, each a list of rows in the order the database
  happens to keep them.
\<close>

record db =
  tag_table :: "CookbookTag list"
  material_table :: "Material list"
  step_table :: "Step list"
  cookbook_table :: "Cookbook list"
  tcr_table :: "TagCookbookRelationship list"
  msr_table :: "MaterialStepRelationship list"

text \<open>
  \<^verbatim>\<open>MaterialType\<close> is imported from \<^verbatim>\<open>.defines\<close>; the values of its three members
  are parameters of everything that mentions them.
\<close>

record MaterialType =
  FOOD :: int
  CONDIMENT :: int
  TOOL :: int

datatype error = IntegrityError

section \<open>Step: the ordered material list and its typed filters\<close>

text \<open>
  \<^verbatim>\<open>self.material_set\<close> is the many-to-many manager through
  \<^verbatim>\<open>MaterialStepRelationship\<close>: the inner join of the join rows of this step with the
  materials they name. \<^verbatim>\<open>order_by("materialsteprelationship__priority", "id")\<close>
  orders that join by the join row's priority, then by the material's primary key.
  \<open>material_set_rows\<close> keeps the join row beside each material; the query returns the
  materials.
\<close>

definition material_set :: "Step \<Rightarrow> db \<Rightarrow> (MaterialStepRelationship \<times> Material) list" where
  "material_set self d =
     [(r, m). r \<leftarrow> msr_table d, msr_step_id r = s_pk self,
              m \<leftarrow> material_table d, m_pk m = msr_material_id r]"

definition order_key :: "MaterialStepRelationship \<times> Material \<Rightarrow> int \<times> nat" where
  "order_key rm = (msr_priority (fst rm), m_pk (snd rm))"

definition material_set_rows :: "Step \<Rightarrow> db \<Rightarrow> (MaterialStepRelationship \<times> Material) list" where
  "material_set_rows self d = sort_key order_key (material_set self d)"

definition get_material_set :: "Step \<Rightarrow> db \<Rightarrow> Material list" where
  "get_material_set self d = map snd (material_set_rows self d)"

definition get_material_set_by_type :: "Step \<Rightarrow> int \<Rightarrow> db \<Rightarrow> Material list" where
  "get_material_set_by_type self material_type_value d =
     filter (\<lambda>material. m_type material = material_type_value) (get_material_set self d)"

definition materials_food :: "MaterialType \<Rightarrow> Step \<Rightarrow> db \<Rightarrow> Material list" where
  "materials_food mt self d = get_material_set_by_type self (FOOD mt) d"

definition materials_tool :: "MaterialType \<Rightarrow> Step \<Rightarrow> db \<Rightarrow> Material list" where
  "materials_tool mt self d = get_material_set_by_type self (TOOL mt) d"

definition materials_condiment :: "MaterialType \<Rightarrow> Step \<Rightarrow> db \<Rightarrow> Material list" where
  "materials_condiment mt self d = get_material_set_by_type self (CONDIMENT mt) d"

text \<open>
  The typed view as the specification words it: the materials of the ordered list
  whose type is the given variant, in the same relative order.
\<close>

definition spec_materials_of_variant :: "int \<Rightarrow> Step \<Rightarrow> db \<Rightarrow> Material list" where
  "spec_materials_of_variant v self d = [m \<leftarrow> get_material_set self d. m_type m = v]"

section \<open>CookbookTag: the cached count\<close>

text \<open>
  \<^verbatim>\<open>self.cookbook_set\<close> is the reverse many-to-many manager through
  \<^verbatim>\<open>TagCookbookRelationship\<close>: the inner join of the cookbooks with the join rows
  of this tag, one result per join row. \<^verbatim>\<open>count()\<close> is the number of results.
\<close>

definition cookbook_set :: "CookbookTag \<Rightarrow> db \<Rightarrow> Cookbook list" where
  "cookbook_set self d =
     [c. c \<leftarrow> cookbook_table d, r \<leftarrow> tcr_table d,
         tcr_cookbook_id r = c_pk c, tcr_tag_id r = tag_pk self]"

text \<open>
  \<^verbatim>\<open>save()\<close> of an instance with a primary key writes all its fields over the row
  with that key, and inserts the instance when no row has it.
\<close>

definition save_row :: "('r \<Rightarrow> nat) \<Rightarrow> 'r \<Rightarrow> 'r list \<Rightarrow> 'r list" where
  "save_row pk x rows =
     (if list_ex (\<lambda>r. pk r = pk x) rows
      then map (\<lambda>r. if pk r = pk x then x else r) rows
      else rows @ [x])"

definition CookbookTag_save :: "CookbookTag \<Rightarrow> db \<Rightarrow> db" where
  "CookbookTag_save self d = d\<lparr>tag_table := save_row tag_pk self (tag_table d)\<rparr>"

text \<open>The method returns nothing; the model returns the mutated instance and the store.\<close>

definition update_cookbook_sum :: "CookbookTag \<Rightarrow> db \<Rightarrow> CookbookTag \<times> db" where
  "update_cookbook_sum self d =
     (let self' = self\<lparr>cookbook_sum := int (length (cookbook_set self d))\<rparr>
      in (self', CookbookTag_save self' d))"

text \<open>
  The quantity the specification compares the cached field with: the cookbooks
  associated with the tag, each counted once.
\<close>

definition distinct_cookbooks :: "CookbookTag \<Rightarrow> db \<Rightarrow> Cookbook list" where
  "distinct_cookbooks self d = remdups (cookbook_set self d)"

section \<open>Cookbook: retrieval scopes, materials, tags, deletion\<close>

text \<open>
  \<^verbatim>\<open>objects = models.Manager()\<close> returns every row; \<^verbatim>\<open>CookbookPublicManager\<close>
  narrows the default query set with \<^verbatim>\<open>filter(checked=True)\<close>.
\<close>

definition Cookbook_objects :: "db \<Rightarrow> Cookbook list" where
  "Cookbook_objects d = cookbook_table d"

definition Cookbook_public :: "db \<Rightarrow> Cookbook list" where
  "Cookbook_public d = filter (\<lambda>c. checked c = True) (Cookbook_objects d)"

definition Cookbook_save :: "Cookbook \<Rightarrow> db \<Rightarrow> db" where
  "Cookbook_save self d = d\<lparr>cookbook_table := save_row c_pk self (cookbook_table d)\<rparr>"

text \<open>
  \<^verbatim>\<open>Material.objects.filter(step__cookbook=self)\<close> joins the materials with the join
  rows naming them and with the steps those rows name, and keeps the results whose
  step belongs to this cookbook; the query has no \<^verbatim>\<open>distinct()\<close> and no ordering.
\<close>

definition materials :: "Cookbook \<Rightarrow> db \<Rightarrow> Material list" where
  "materials self d =
     [m. m \<leftarrow> material_table d, r \<leftarrow> msr_table d, msr_material_id r = m_pk m,
         s \<leftarrow> step_table d, s_pk s = msr_step_id r, s_cookbook_id s = c_pk self]"

text \<open>
  \<^verbatim>\<open>TagCookbookRelationship.objects.create(tag=tag, cookbook=self)\<close> inserts one row
  with the declared defaults \<^verbatim>\<open>like = 0\<close>, \<^verbatim>\<open>unlike = 0\<close> and a primary key not in
  use. Both foreign keys are checked by the store: a key that names no row is an
  \<^verbatim>\<open>IntegrityError\<close> and nothing is written.
\<close>

definition next_pk :: "nat list \<Rightarrow> nat" where
  "next_pk pks = Suc (fold max pks 0)"

definition TagCookbookRelationship_create :: "nat \<Rightarrow> nat \<Rightarrow> db \<Rightarrow> error + db" where
  "TagCookbookRelationship_create tag cookbook d =
     (if list_ex (\<lambda>t. tag_pk t = tag) (tag_table d)
         \<and> list_ex (\<lambda>c. c_pk c = cookbook) (cookbook_table d)
      then Inr (d\<lparr>tcr_table := tcr_table d @
             [\<lparr>tcr_pk = next_pk (map tcr_pk (tcr_table d)), tcr_cookbook_id = cookbook,
               tcr_tag_id = tag, like = 0, unlike = 0\<rparr>]\<rparr>)
      else Inl IntegrityError)"

definition pair_rows :: "Cookbook \<Rightarrow> CookbookTag \<Rightarrow> db \<Rightarrow> TagCookbookRelationship list" where
  "pair_rows self tag d =
     filter (\<lambda>r. tcr_cookbook_id r = c_pk self \<and> tcr_tag_id r = tag_pk tag) (tcr_table d)"

definition add_tag :: "Cookbook \<Rightarrow> CookbookTag \<Rightarrow> db \<Rightarrow> error + db" where
  "add_tag self tag d =
     (if pair_rows self tag d \<noteq> [] then Inr d
      else TagCookbookRelationship_create (tag_pk tag) (c_pk self) d)"

text \<open>
  \<^verbatim>\<open>delete()\<close> of a cookbook follows every \<^verbatim>\<open>on_delete=models.CASCADE\<close> that
  leads to it: the steps whose \<^verbatim>\<open>cookbook\<close> it is, the
  \<^verbatim>\<open>TagCookbookRelationship\<close> rows whose \<^verbatim>\<open>cookbook\<close> it is and, through the
  collected steps, the \<^verbatim>\<open>MaterialStepRelationship\<close> rows whose \<^verbatim>\<open>step\<close> they
  are. No foreign key points from \<^verbatim>\<open>Material\<close> or \<^verbatim>\<open>CookbookTag\<close> to any of
  these, so those tables are not visited.
\<close>

definition owned_steps :: "Cookbook \<Rightarrow> db \<Rightarrow> Step list" where
  "owned_steps self d = filter (\<lambda>s. s_cookbook_id s = c_pk self) (step_table d)"

definition Cookbook_delete :: "Cookbook \<Rightarrow> db \<Rightarrow> db" where
  "Cookbook_delete self d =
     (let gone = map s_pk (owned_steps self d)
      in d\<lparr>cookbook_table := filter (\<lambda>c. c_pk c \<noteq> c_pk self) (cookbook_table d),
           step_table := filter (\<lambda>s. s_pk s \<notin> set gone) (step_table d),
           tcr_table := filter (\<lambda>r. tcr_cookbook_id r \<noteq> c_pk self) (tcr_table d),
           msr_table := filter (\<lambda>r. msr_step_id r \<notin> set gone) (msr_table d)\<rparr>)"

section \<open>Notions used to state the properties\<close>

text \<open>
  The join rows that link a material to a step of a cookbook, and the results one
  material row contributes to \<open>materials\<close>: one copy of the material per such link.
\<close>

definition linking_rows :: "Cookbook \<Rightarrow> Material \<Rightarrow> db \<Rightarrow> MaterialStepRelationship list" where
  "linking_rows self M d =
     filter (\<lambda>r. msr_material_id r = m_pk M
                \<and> list_ex (\<lambda>s. s_pk s = msr_step_id r \<and> s_cookbook_id s = c_pk self)
                     (step_table d))
       (msr_table d)"

definition linked_copies :: "Cookbook \<Rightarrow> db \<Rightarrow> Material \<Rightarrow> Material list" where
  "linked_copies self d m =
     [m. r \<leftarrow> msr_table d, msr_material_id r = m_pk m,
         s \<leftarrow> step_table d, s_pk s = msr_step_id r, s_cookbook_id s = c_pk self]"

text \<open>
  The join rows of a tag, and the results one cookbook row contributes to
  \<open>cookbook_set\<close>: one copy of the cookbook per join row that pairs it with the tag.
\<close>

definition tag_rows :: "CookbookTag \<Rightarrow> db \<Rightarrow> TagCookbookRelationship list" where
  "tag_rows self d = filter (\<lambda>r. tcr_tag_id r = tag_pk self) (tcr_table d)"

definition tagged_copies :: "CookbookTag \<Rightarrow> db \<Rightarrow> Cookbook \<Rightarrow> Cookbook list" where
  "tagged_copies self d c =
     [c. r \<leftarrow> tcr_table d, tcr_cookbook_id r = c_pk c, tcr_tag_id r = tag_pk self]"

section \<open>Concrete stores used by the examples\<close>

definition salt :: Material where
  "salt = \<lparr>m_pk = 1, m_name = ''salt'', m_detail = '''', m_type = 2, m_img_url = ''''\<rparr>"

definition egg :: Material where
  "egg = \<lparr>m_pk = 2, m_name = ''egg'', m_detail = '''', m_type = 1, m_img_url = ''''\<rparr>"

definition pan :: Material where
  "pan = \<lparr>m_pk = 3, m_name = ''pan'', m_detail = '''', m_type = 3, m_img_url = ''''\<rparr>"

definition types123 :: MaterialType where
  "types123 = \<lparr>FOOD = 1, CONDIMENT = 2, TOOL = 3\<rparr>"

definition omelette :: Cookbook where
  "omelette = \<lparr>c_pk = 1, c_name = ''omelette'', url_video = '''', url_cover_image = '''',
     description = '''', checked = False\<rparr>"

definition beat :: Step where
  "beat = \<lparr>s_pk = 1, s_name = ''beat'', s_detail = '''', s_priority = 0, s_img_url = '''',
     duration = 60, s_cookbook_id = 1\<rparr>"

definition fry :: Step where
  "fry = \<lparr>s_pk = 2, s_name = ''fry'', s_detail = '''', s_priority = 1, s_img_url = '''',
     duration = 180, s_cookbook_id = 1\<rparr>"

definition quick :: CookbookTag where
  "quick = \<lparr>tag_pk = 1, tag_name = ''quick'', tag_priority = 0, cookbook_sum = 0\<rparr>"

definition link :: "nat \<Rightarrow> nat \<Rightarrow> nat \<Rightarrow> int \<Rightarrow> MaterialStepRelationship" where
  "link k s m p = \<lparr>msr_pk = k, msr_step_id = s, msr_material_id = m, amount = '''',
     msr_priority = p\<rparr>"

text \<open>
  A kitchen with one recipe of two steps. Beating uses the egg and salt, frying uses
  the pan, salt again and the egg again, the last two at the same priority.
\<close>

definition kitchen :: db where
  "kitchen = \<lparr>tag_table = [quick], material_table = [pan, egg, salt],
     step_table = [beat, fry], cookbook_table = [omelette], tcr_table = [],
     msr_table = [link 1 1 1 5, link 2 1 2 0, link 3 2 2 1, link 4 2 1 1, link 5 2 3 0]\<rparr>"

definition tagging :: "nat \<Rightarrow> nat \<Rightarrow> nat \<Rightarrow> TagCookbookRelationship" where
  "tagging k c t = \<lparr>tcr_pk = k, tcr_cookbook_id = c, tcr_tag_id = t, like = 0, unlike = 0\<rparr>"

text \<open>The same kitchen with the recipe tagged, once and twice.\<close>

definition tagged_once :: db where
  "tagged_once = kitchen\<lparr>tcr_table := [tagging 1 1 1]\<rparr>"

definition tagged_twice :: db where
  "tagged_twice = kitchen\<lparr>tcr_table := [tagging 1 1 1, tagging 2 1 1]\<rparr>"

text \<open>The kitchen with the rows of two tables kept in the opposite order.\<close>

definition kitchen_rev :: db where
  "kitchen_rev = kitchen\<lparr>material_table := rev (material_table kitchen),
     msr_table := rev (msr_table kitchen)\<rparr>"

section \<open>Properties of the typed filters\<close>

lemma by_type_filter:
  "get_material_set_by_type self v d = [m \<leftarrow> get_material_set self d. m_type m = v]"
  by (simp add: get_material_set_by_type_def)

text \<open>
  Claim C5. For every step and every type value, each material returned by
  \<open>get_material_set_by_type\<close> has that type, and the returned list is a subsequence
  of \<open>get_material_set\<close> of the same step: the relative order of the full list is kept.
\<close>

theorem by_type_typed_subseq:
  "list_all (\<lambda>m. m_type m = v) (get_material_set_by_type self v d)
   \<and> subseq (get_material_set_by_type self v d) (get_material_set self d)"
  by (simp add: by_type_filter list_all_iff)

lemma get_material_set_stored: "set (get_material_set self d) \<subseteq> set (material_table d)"
  by (auto simp: get_material_set_def material_set_rows_def material_set_def)

text \<open>
  Claim C9. The three convenience views \<open>materials_food\<close>, \<open>materials_condiment\<close>
  and \<open>materials_tool\<close> return the same list as \<open>get_material_set_by_type\<close> called
  with the value of the member FOOD, CONDIMENT and TOOL respectively, which is the
  ordered material list restricted to that variant.
\<close>

theorem convenience_views:
  "materials_food mt self d = get_material_set_by_type self (FOOD mt) d
   \<and> materials_condiment mt self d = get_material_set_by_type self (CONDIMENT mt) d
   \<and> materials_tool mt self d = get_material_set_by_type self (TOOL mt) d
   \<and> materials_food mt self d = spec_materials_of_variant (FOOD mt) self d
   \<and> materials_condiment mt self d = spec_materials_of_variant (CONDIMENT mt) self d
   \<and> materials_tool mt self d = spec_materials_of_variant (TOOL mt) self d"
  by (simp add: materials_food_def materials_condiment_def materials_tool_def
      spec_materials_of_variant_def by_type_filter)

text \<open>
  Claim C10. When no material linked to the step has type \<open>v\<close>, the typed filter
  returns the empty list; in particular for a \<open>v\<close> that is none of the three variant
  values, when every stored material has one of them. The function has no failing
  branch: it is a filter of the ordered list.
\<close>

theorem by_type_absent_empty:
  "((\<forall>m \<in> set (get_material_set self d). m_type m \<noteq> v)
      \<longrightarrow> get_material_set_by_type self v d = [])
   \<and> ((\<forall>m \<in> set (material_table d). m_type m \<in> {FOOD mt, CONDIMENT mt, TOOL mt})
        \<and> v \<notin> {FOOD mt, CONDIMENT mt, TOOL mt}
      \<longrightarrow> get_material_set_by_type self v d = [])"
proof (intro conjI impI)
  assume "\<forall>m \<in> set (get_material_set self d). m_type m \<noteq> v"
  then show "get_material_set_by_type self v d = []"
    by (simp add: by_type_filter filter_empty_conv)
next
  assume a: "(\<forall>m \<in> set (material_table d). m_type m \<in> {FOOD mt, CONDIMENT mt, TOOL mt})
        \<and> v \<notin> {FOOD mt, CONDIMENT mt, TOOL mt}"
  have "m_type m \<noteq> v" if "m \<in> set (get_material_set self d)" for m
  proof -
    from that get_material_set_stored have "m \<in> set (material_table d)" by blast
    with a show ?thesis by blast
  qed
  then show "get_material_set_by_type self v d = []"
    by (simp add: by_type_filter filter_empty_conv)
qed

theorem by_type_absent_empty_witness:
  "get_material_set fry kitchen = [pan, salt, egg]
   \<and> map m_type (get_material_set fry kitchen) = [3, 2, 1]
   \<and> map m_type (material_table kitchen) = [3, 1, 2]
   \<and> types123 = \<lparr>FOOD = 1, CONDIMENT = 2, TOOL = 3\<rparr>
   \<and> get_material_set_by_type fry 7 kitchen = []"
proof -
  have g: "get_material_set fry kitchen = [pan, salt, egg]" by code_simp
  have t: "map m_type (get_material_set fry kitchen) = [3, 2, 1]"
    unfolding g by (simp add: pan_def salt_def egg_def)
  have h1: "\<forall>m \<in> set (get_material_set fry kitchen). m_type m \<noteq> 7"
    unfolding g by (simp add: pan_def salt_def egg_def)
  have s: "map m_type (material_table kitchen) = [3, 1, 2]"
    by (simp add: kitchen_def pan_def salt_def egg_def)
  have h2: "\<forall>m \<in> set (material_table kitchen).
      m_type m \<in> {FOOD types123, CONDIMENT types123, TOOL types123}"
    by (simp add: kitchen_def pan_def salt_def egg_def types123_def)
  have h3: "7 \<notin> {FOOD types123, CONDIMENT types123, TOOL types123}"
    by (simp add: types123_def)
  from by_type_absent_empty [of fry kitchen 7 types123] h1 h2 h3
  have "get_material_set_by_type fry 7 kitchen = []" by blast
  with g t s show ?thesis by (simp add: types123_def)
qed

section \<open>Properties of the retrieval scopes\<close>

lemma save_row_mem: "x \<in> set (save_row pk x rows)"
  by (induction rows) (auto simp: save_row_def list_ex_iff)

lemma save_row_same_pk: "r \<in> set (save_row pk x rows) \<Longrightarrow> pk r = pk x \<Longrightarrow> r = x"
  by (auto simp: save_row_def list_ex_iff split: if_splits)

text \<open>
  Claim C6. The unfiltered scope is the whole cookbook table, and the public scope
  contains a cookbook exactly when it is a stored cookbook whose \<open>checked\<close> is true.
  In particular: once a cookbook is saved with \<open>checked = False\<close> it is in the
  unfiltered scope and no row with its primary key is in the public scope; once it
  is saved again with \<open>checked = True\<close> it is in the public scope.
\<close>

theorem retrieval_scopes:
  "Cookbook_objects d = cookbook_table d
   \<and> (c \<in> set (Cookbook_public d) \<longleftrightarrow> c \<in> set (cookbook_table d) \<and> checked c)
   \<and> (let hidden = c\<lparr>checked := False\<rparr>; d1 = Cookbook_save hidden d;
           shown = c\<lparr>checked := True\<rparr>; d2 = Cookbook_save shown d1
       in hidden \<in> set (Cookbook_objects d1)
          \<and> filter (\<lambda>x. c_pk x = c_pk c) (Cookbook_public d1) = []
          \<and> shown \<in> set (Cookbook_objects d2)
          \<and> shown \<in> set (Cookbook_public d2))"
proof -
  have 1: "Cookbook_objects d = cookbook_table d"
    by (simp add: Cookbook_objects_def)
  have 2: "c \<in> set (Cookbook_public d) \<longleftrightarrow> c \<in> set (cookbook_table d) \<and> checked c"
    by (auto simp: Cookbook_public_def Cookbook_objects_def)
  define hidden where "hidden = c\<lparr>checked := False\<rparr>"
  define d1 where "d1 = Cookbook_save hidden d"
  define shown where "shown = c\<lparr>checked := True\<rparr>"
  define d2 where "d2 = Cookbook_save shown d1"
  have 3: "hidden \<in> set (Cookbook_objects d1)"
    by (simp add: d1_def Cookbook_objects_def Cookbook_save_def save_row_mem)
  have "\<not> checked x" if "x \<in> set (cookbook_table d1)" "c_pk x = c_pk c" for x
  proof -
    from that have "x \<in> set (save_row c_pk hidden (cookbook_table d))" "c_pk x = c_pk hidden"
      by (simp_all add: d1_def Cookbook_save_def hidden_def)
    then have "x = hidden" by (rule save_row_same_pk)
    then show ?thesis by (simp add: hidden_def)
  qed
  then have 4: "filter (\<lambda>x. c_pk x = c_pk c) (Cookbook_public d1) = []"
    by (auto simp: filter_empty_conv Cookbook_public_def Cookbook_objects_def)
  have 5: "shown \<in> set (Cookbook_objects d2)"
    by (simp add: d2_def Cookbook_objects_def Cookbook_save_def save_row_mem)
  then have 6: "shown \<in> set (Cookbook_public d2)"
    by (simp add: Cookbook_public_def shown_def)
  from 1 2 3 4 5 6 show ?thesis
    by (simp add: Let_def hidden_def d1_def shown_def d2_def)
qed

theorem retrieval_scopes_witness:
  "Cookbook_public kitchen = []
   \<and> Cookbook_objects kitchen = [omelette]
   \<and> Cookbook_public (Cookbook_save (omelette\<lparr>checked := True\<rparr>) kitchen)
       = [omelette\<lparr>checked := True\<rparr>]
   \<and> (omelette \<in> set (Cookbook_public kitchen)
        \<longleftrightarrow> omelette \<in> set (cookbook_table kitchen) \<and> checked omelette)"
proof -
  have a: "Cookbook_public kitchen = []" by code_simp
  have b: "Cookbook_objects kitchen = [omelette]" by code_simp
  have c: "Cookbook_public (Cookbook_save (omelette\<lparr>checked := True\<rparr>) kitchen)
       = [omelette\<lparr>checked := True\<rparr>]" by code_simp
  from retrieval_scopes [of kitchen omelette] a b c show ?thesis by blast
qed

section \<open>Properties of tag association\<close>

lemma add_tag_existing: "pair_rows self tag d \<noteq> [] \<Longrightarrow> add_tag self tag d = Inr d"
  by (simp add: add_tag_def)

lemma add_tag_fresh:
  assumes "pair_rows self tag d = []"
    and "list_ex (\<lambda>c. c_pk c = c_pk self) (cookbook_table d)"
    and "list_ex (\<lambda>t. tag_pk t = tag_pk tag) (tag_table d)"
  shows "add_tag self tag d =
     Inr (d\<lparr>tcr_table := tcr_table d @
           [\<lparr>tcr_pk = next_pk (map tcr_pk (tcr_table d)), tcr_cookbook_id = c_pk self,
             tcr_tag_id = tag_pk tag, like = 0, unlike = 0\<rparr>]\<rparr>)"
  using assms by (simp add: add_tag_def TagCookbookRelationship_create_def)

text \<open>
  Claim C3. For a stored cookbook and a stored tag: when a row for the pair exists,
  \<open>add_tag\<close> returns the store as it was; when none exists, it appends exactly one row
  for the pair, with \<open>like = 0\<close> and \<open>unlike = 0\<close>, and a second call on the result
  changes nothing, so that exactly one row associates the two.
\<close>

theorem add_tag_idempotent:
  "(pair_rows self tag d \<noteq> [] \<longrightarrow> add_tag self tag d = Inr d)
   \<and> (pair_rows self tag d = []
        \<and> list_ex (\<lambda>c. c_pk c = c_pk self) (cookbook_table d)
        \<and> list_ex (\<lambda>t. tag_pk t = tag_pk tag) (tag_table d)
      \<longrightarrow> (\<exists>row d1.
             add_tag self tag d = Inr d1
             \<and> d1 = d\<lparr>tcr_table := tcr_table d @ [row]\<rparr>
             \<and> tcr_cookbook_id row = c_pk self \<and> tcr_tag_id row = tag_pk tag
             \<and> like row = 0 \<and> unlike row = 0
             \<and> add_tag self tag d1 = Inr d1
             \<and> pair_rows self tag d1 = [row]))"
proof (intro conjI impI)
  assume "pair_rows self tag d \<noteq> []"
  then show "add_tag self tag d = Inr d" by (rule add_tag_existing)
next
  assume a: "pair_rows self tag d = []
        \<and> list_ex (\<lambda>c. c_pk c = c_pk self) (cookbook_table d)
        \<and> list_ex (\<lambda>t. tag_pk t = tag_pk tag) (tag_table d)"
  define row where "row = \<lparr>tcr_pk = next_pk (map tcr_pk (tcr_table d)),
     tcr_cookbook_id = c_pk self, tcr_tag_id = tag_pk tag, like = 0, unlike = (0::int)\<rparr>"
  define d1 where "d1 = d\<lparr>tcr_table := tcr_table d @ [row]\<rparr>"
  from a have first: "add_tag self tag d = Inr d1"
    by (simp add: add_tag_fresh d1_def row_def)
  from a have rows: "pair_rows self tag d1 = [row]"
    by (simp add: pair_rows_def d1_def row_def)
  then have second: "add_tag self tag d1 = Inr d1"
    by (simp add: add_tag_existing)
  have "tcr_cookbook_id row = c_pk self \<and> tcr_tag_id row = tag_pk tag
        \<and> like row = 0 \<and> unlike row = 0"
    by (simp add: row_def)
  with first second rows d1_def
  show "\<exists>row d1.
             add_tag self tag d = Inr d1
             \<and> d1 = d\<lparr>tcr_table := tcr_table d @ [row]\<rparr>
             \<and> tcr_cookbook_id row = c_pk self \<and> tcr_tag_id row = tag_pk tag
             \<and> like row = 0 \<and> unlike row = 0
             \<and> add_tag self tag d1 = Inr d1
             \<and> pair_rows self tag d1 = [row]"
    by blast
qed

theorem add_tag_idempotent_witness:
  "pair_rows omelette quick kitchen = []
   \<and> list_ex (\<lambda>c. c_pk c = c_pk omelette) (cookbook_table kitchen)
   \<and> list_ex (\<lambda>t. tag_pk t = tag_pk quick) (tag_table kitchen)
   \<and> pair_rows omelette quick tagged_once \<noteq> []
   \<and> add_tag omelette quick tagged_once = Inr tagged_once
   \<and> (\<exists>row d1. add_tag omelette quick kitchen = Inr d1
         \<and> add_tag omelette quick d1 = Inr d1 \<and> pair_rows omelette quick d1 = [row])"
proof -
  have h1: "pair_rows omelette quick kitchen = []" by code_simp
  have h2: "list_ex (\<lambda>c. c_pk c = c_pk omelette) (cookbook_table kitchen)" by code_simp
  have h3: "list_ex (\<lambda>t. tag_pk t = tag_pk quick) (tag_table kitchen)" by code_simp
  have h4: "pair_rows omelette quick tagged_once \<noteq> []" by code_simp
  from add_tag_idempotent [of omelette quick tagged_once] h4
  have a: "add_tag omelette quick tagged_once = Inr tagged_once" by blast
  from add_tag_idempotent [of omelette quick kitchen] h1 h2 h3
  have b: "\<exists>row d1. add_tag omelette quick kitchen = Inr d1
         \<and> add_tag omelette quick d1 = Inr d1 \<and> pair_rows omelette quick d1 = [row]"
    by blast
  from h1 h2 h3 h4 a b show ?thesis by blast
qed

text \<open>
  Claim C8. A call of \<open>add_tag\<close> that returns leaves the tag table as it was, so the
  \<open>cookbook_sum\<close> of the tag and of every other tag keeps its value: the association
  does not recompute the count. (A call that raises writes nothing at all.)
\<close>

theorem add_tag_keeps_counts:
  "add_tag self tag d = Inr d' \<Longrightarrow>
     tag_table d' = tag_table d
     \<and> map cookbook_sum (tag_table d') = map cookbook_sum (tag_table d)"
  by (auto simp: add_tag_def TagCookbookRelationship_create_def split: if_splits)

theorem add_tag_keeps_counts_witness:
  "add_tag omelette quick kitchen = Inr tagged_once
   \<and> tag_table tagged_once = tag_table kitchen
   \<and> map cookbook_sum (tag_table tagged_once) = [0]"
proof -
  have h: "add_tag omelette quick kitchen = Inr tagged_once" by code_simp
  have "map cookbook_sum (tag_table kitchen) = [0]" by code_simp
  with add_tag_keeps_counts [OF h] h show ?thesis by simp
qed

section \<open>Properties of deletion\<close>

text \<open>
  Claim C7. After a cookbook is deleted, the store holds no step of that cookbook, no
  \<open>MaterialStepRelationship\<close> row of a step it owned and no
  \<open>TagCookbookRelationship\<close> row of the cookbook, and the cookbook itself is gone;
  the material table and the tag table are untouched, so a material that only a
  deleted step used is still stored.
\<close>

theorem delete_cascade:
  "(let d' = Cookbook_delete self d
    in filter (\<lambda>c. c_pk c = c_pk self) (cookbook_table d') = []
       \<and> filter (\<lambda>s. s_cookbook_id s = c_pk self) (step_table d') = []
       \<and> filter (\<lambda>r. msr_step_id r \<in> s_pk ` set (owned_steps self d)) (msr_table d') = []
       \<and> filter (\<lambda>r. tcr_cookbook_id r = c_pk self) (tcr_table d') = []
       \<and> material_table d' = material_table d
       \<and> tag_table d' = tag_table d)"
  by (auto simp: Cookbook_delete_def Let_def filter_empty_conv owned_steps_def)

theorem delete_cascade_witness:
  "step_table (Cookbook_delete omelette tagged_once) = []
   \<and> msr_table (Cookbook_delete omelette tagged_once) = []
   \<and> tcr_table (Cookbook_delete omelette tagged_once) = []
   \<and> material_table (Cookbook_delete omelette tagged_once) = [pan, egg, salt]
   \<and> tag_table (Cookbook_delete omelette tagged_once) = [quick]"
proof -
  have a: "step_table (Cookbook_delete omelette tagged_once) = []" by code_simp
  have b: "msr_table (Cookbook_delete omelette tagged_once) = []" by code_simp
  have c: "tcr_table (Cookbook_delete omelette tagged_once) = []" by code_simp
  have m: "material_table tagged_once = [pan, egg, salt]" by code_simp
  have t: "tag_table tagged_once = [quick]" by code_simp
  from delete_cascade [of omelette tagged_once] a b c m t show ?thesis
    by (simp add: Let_def)
qed

section \<open>General facts about lists\<close>

lemma sort_mset_cong: "mset xs = mset ys \<Longrightarrow> sort xs = sort ys"
  by (rule properties_for_sort) simp_all

lemma keys_of_sort_key: "map k (sort_key k xs) = sort (map k xs)"
  by (rule properties_for_sort [symmetric]) simp_all

text \<open>
  Sorting by a key gives the same list of \<open>f\<close>-values for every arrangement of
  the input, provided the key of an element determines its \<open>f\<close>-value.
\<close>

lemma sort_key_order_free:
  assumes perm: "mset ys = mset xs"
    and det: "\<And>x y. x \<in> set xs \<Longrightarrow> y \<in> set xs \<Longrightarrow> k x = k y \<Longrightarrow> f x = f y"
  shows "map f (sort_key k ys) = map f (sort_key k xs)"
proof -
  define g where "g v = f (SOME x. x \<in> set xs \<and> k x = v)" for v
  have fg: "f x = g (k x)" if "x \<in> set xs" for x
  proof -
    have "(SOME y. y \<in> set xs \<and> k y = k x) \<in> set xs
          \<and> k (SOME y. y \<in> set xs \<and> k y = k x) = k x"
      by (rule someI [of _ x]) (simp add: that)
    with that det show ?thesis unfolding g_def by metis
  qed
  from perm have sets: "set ys = set xs" by (rule mset_eq_setD)
  have "map f (sort_key k ys) = map g (map k (sort_key k ys))"
    using fg sets by simp
  also have "map k (sort_key k ys) = sort (map k ys)" by (rule keys_of_sort_key)
  also have "sort (map k ys) = sort (map k xs)"
    using perm by (intro sort_mset_cong) simp
  also have "sort (map k xs) = map k (sort_key k xs)" by (rule keys_of_sort_key [symmetric])
  also have "map g (map k (sort_key k xs)) = map f (sort_key k xs)"
    using fg by simp
  finally show ?thesis .
qed

lemma mset_concat_map_cong:
  assumes "mset ys = mset xs" and "\<And>x. x \<in> set xs \<Longrightarrow> mset (G x) = mset (F x)"
  shows "mset (concat (map G ys)) = mset (concat (map F xs))"
proof -
  have "mset (concat (map G ys)) = sum_mset (image_mset (\<lambda>x. mset (G x)) (mset ys))"
    by (induction ys) simp_all
  also have "\<dots> = sum_mset (image_mset (\<lambda>x. mset (G x)) (mset xs))"
    using assms(1) by simp
  also have "\<dots> = sum_mset (image_mset (\<lambda>x. mset (F x)) (mset xs))"
    using assms(2) by (intro arg_cong [where f = sum_mset] image_mset_cong) simp
  also have "\<dots> = mset (concat (map F xs))"
    by (induction xs) simp_all
  finally show ?thesis .
qed

section \<open>Properties of the ordered material list\<close>

lemma material_set_perm:
  assumes "mset (msr_table d') = mset (msr_table d)"
    and "mset (material_table d') = mset (material_table d)"
  shows "mset (material_set self d') = mset (material_set self d)"
  unfolding material_set_def
  by (rule mset_concat_map_cong [OF assms(1)])
     (auto intro!: mset_concat_map_cong [OF assms(2)])

lemma material_set_stored:
  "x \<in> set (material_set self d) \<Longrightarrow>
     fst x \<in> set (msr_table d) \<and> snd x \<in> set (material_table d)
     \<and> msr_step_id (fst x) = s_pk self \<and> m_pk (snd x) = msr_material_id (fst x)"
  by (auto simp: material_set_def)

lemma key_fixes_material:
  assumes "distinct (map m_pk (material_table d))"
    and "x \<in> set (material_set self d)" and "y \<in> set (material_set self d)"
    and "order_key x = order_key y"
  shows "snd x = snd y"
proof -
  from assms(1) have "inj_on m_pk (set (material_table d))" by (simp add: distinct_map)
  moreover from assms(2,3)
  have "snd x \<in> set (material_table d)" "snd y \<in> set (material_table d)"
    by (simp_all add: material_set_stored)
  moreover from assms(4) have "m_pk (snd x) = m_pk (snd y)" by (simp add: order_key_def)
  ultimately show ?thesis by (simp add: inj_on_def)
qed

lemma get_material_set_order_free:
  assumes "distinct (map m_pk (material_table d))"
    and "mset (msr_table d') = mset (msr_table d)"
    and "mset (material_table d') = mset (material_table d)"
  shows "get_material_set self d' = get_material_set self d"
  unfolding get_material_set_def material_set_rows_def
  by (rule sort_key_order_free)
     (auto intro: material_set_perm assms key_fixes_material [OF assms(1)])

lemma rows_sorted: "sorted (map order_key (material_set_rows self d))"
  by (simp add: material_set_rows_def)

lemma rows_priority_sorted:
  "sorted (map (\<lambda>x. msr_priority (fst x)) (material_set_rows self d))"
proof -
  have "sorted_wrt (\<lambda>x y. order_key x \<le> order_key y) (material_set_rows self d)"
    using rows_sorted by (simp add: sorted_map)
  then have "sorted_wrt (\<lambda>x y. msr_priority (fst x) \<le> msr_priority (fst y))
      (material_set_rows self d)"
    by (rule sorted_wrt_mono_rel [rotated]) (auto simp: order_key_def less_eq_prod_def)
  then show ?thesis by (simp add: sorted_map)
qed

lemma rows_ties_by_pk:
  "sorted_wrt (\<lambda>x y. msr_priority (fst x) = msr_priority (fst y)
                    \<longrightarrow> m_pk (snd x) \<le> m_pk (snd y))
     (material_set_rows self d)"
proof -
  have "sorted_wrt (\<lambda>x y. order_key x \<le> order_key y) (material_set_rows self d)"
    using rows_sorted by (simp add: sorted_map)
  then show ?thesis
    by (rule sorted_wrt_mono_rel [rotated]) (auto simp: order_key_def less_eq_prod_def)
qed

lemma rows_are_the_join: "mset (material_set_rows self d) = mset (material_set self d)"
  by (simp add: material_set_rows_def)

text \<open>
  Claim C4. \<open>get_material_set\<close> returns the materials of the step's join rows, each
  row once, in an order where the join priorities never decrease and where, of two
  results with equal join priority, the one whose material has the lower primary
  key is never later. With unique material keys the returned list is fixed by the
  stored rows alone: it is the same for every order in which the two tables keep
  them.
\<close>

theorem get_material_set_ordered:
  "get_material_set self d = map snd (material_set_rows self d)
   \<and> mset (material_set_rows self d) = mset (material_set self d)
   \<and> sorted (map (\<lambda>x. msr_priority (fst x)) (material_set_rows self d))
   \<and> sorted_wrt (\<lambda>x y. msr_priority (fst x) = msr_priority (fst y)
                      \<longrightarrow> m_pk (snd x) \<le> m_pk (snd y)) (material_set_rows self d)
   \<and> (distinct (map m_pk (material_table d))
        \<and> mset (msr_table d') = mset (msr_table d)
        \<and> mset (material_table d') = mset (material_table d)
      \<longrightarrow> get_material_set self d' = get_material_set self d)"
  using rows_are_the_join rows_priority_sorted rows_ties_by_pk get_material_set_order_free
  by (simp add: get_material_set_def)

theorem get_material_set_ordered_witness:
  "map (\<lambda>x. (msr_priority (fst x), m_pk (snd x))) (material_set_rows fry kitchen)
     = [(0, 3), (1, 1), (1, 2)]
   \<and> get_material_set fry kitchen = [pan, salt, egg]
   \<and> map m_pk (material_table kitchen) = [3, 2, 1]
   \<and> material_table kitchen_rev = rev (material_table kitchen)
   \<and> msr_table kitchen_rev = rev (msr_table kitchen)
   \<and> get_material_set fry kitchen_rev = [pan, salt, egg]"
proof -
  have k: "map (\<lambda>x. (msr_priority (fst x), m_pk (snd x))) (material_set_rows fry kitchen)
     = [(0, 3), (1, 1), (1, 2)]" by code_simp
  have g: "get_material_set fry kitchen = [pan, salt, egg]" by code_simp
  have p: "map m_pk (material_table kitchen) = [3, 2, 1]" by code_simp
  have h1: "distinct (map m_pk (material_table kitchen))" unfolding p by simp
  have m: "material_table kitchen_rev = rev (material_table kitchen)"
    by (simp add: kitchen_rev_def)
  have r: "msr_table kitchen_rev = rev (msr_table kitchen)"
    by (simp add: kitchen_rev_def)
  from get_material_set_ordered [of fry kitchen kitchen_rev] h1 m r
  have "get_material_set fry kitchen_rev = get_material_set fry kitchen" by simp
  with k g p m r show ?thesis by simp
qed

section \<open>Counting the results of a join\<close>

lemma unique_pk_hits:
  "distinct (map pk ss) \<Longrightarrow>
     length (filter (\<lambda>s. pk s = k \<and> Q s) ss) = (if list_ex (\<lambda>s. pk s = k \<and> Q s) ss then 1 else 0)"
proof (induction ss)
  case Nil
  then show ?case by simp
next
  case (Cons s ss)
  show ?case
  proof (cases "pk s = k")
    case True
    have "pk x \<noteq> k" if "x \<in> set ss" for x
      using Cons.prems True that
      by (metis distinct.simps(2) image_eqI list.simps(9) set_map)
    then have "filter (\<lambda>s. pk s = k \<and> Q s) ss = []"
      by (simp add: filter_empty_conv)
    moreover from this have "\<not> list_ex (\<lambda>s. pk s = k \<and> Q s) ss"
      by (simp add: filter_empty_conv list_ex_iff)
    ultimately show ?thesis by simp
  next
    case False
    with Cons show ?thesis by simp
  qed
qed

lemma at_most_one:
  "distinct (map f xs) \<Longrightarrow> length (filter (\<lambda>x. f x = k) xs) \<le> 1"
  using unique_pk_hits [of f xs k "\<lambda>x. True"] by simp

lemma swap_count:
  "(\<Sum>c\<leftarrow>cs. length (filter (\<lambda>r. fk r = pk c) rs))
     = (\<Sum>r\<leftarrow>rs. length (filter (\<lambda>c. pk c = fk r) cs))"
proof (induction rs)
  case Nil
  then show ?case by simp
next
  case (Cons r rs)
  have "(\<Sum>c\<leftarrow>cs. length (filter (\<lambda>r. fk r = pk c) (r # rs)))
      = (\<Sum>c\<leftarrow>cs. (if pk c = fk r then 1 else 0) + length (filter (\<lambda>r. fk r = pk c) rs))"
    by (intro arg_cong [where f = sum_list] map_cong) auto
  also have "\<dots> = (\<Sum>c\<leftarrow>cs. if pk c = fk r then 1 else 0)
                  + (\<Sum>c\<leftarrow>cs. length (filter (\<lambda>r. fk r = pk c) rs))"
    by (simp add: sum_list_addf)
  also have "(\<Sum>c\<leftarrow>cs. if pk c = fk r then 1 else 0) = length (filter (\<lambda>c. pk c = fk r) cs)"
    by (induction cs) simp_all
  also have "(\<Sum>c\<leftarrow>cs. length (filter (\<lambda>r. fk r = pk c) rs))
      = (\<Sum>r\<leftarrow>rs. length (filter (\<lambda>c. pk c = fk r) cs))"
    by (rule Cons.IH)
  also have "length (filter (\<lambda>c. pk c = fk r) cs)
        + (\<Sum>r\<leftarrow>rs. length (filter (\<lambda>c. pk c = fk r) cs))
      = (\<Sum>r\<leftarrow>r # rs. length (filter (\<lambda>c. pk c = fk r) cs))"
    by simp
  finally show ?case .
qed

lemma one_per_row:
  assumes "distinct (map pk cs)" and "\<And>r. r \<in> set rs \<Longrightarrow> list_ex (\<lambda>c. pk c = fk r) cs"
  shows "(\<Sum>r\<leftarrow>rs. length (filter (\<lambda>c. pk c = fk r) cs)) = length rs"
  using assms(2)
proof (induction rs)
  case Nil
  then show ?case by simp
next
  case (Cons r rs)
  have "list_ex (\<lambda>c. pk c = fk r) cs" by (rule Cons.prems) simp
  with unique_pk_hits [OF assms(1), of "fk r" "\<lambda>c. True"]
  have one: "length (filter (\<lambda>c. pk c = fk r) cs) = 1" by simp
  have "(\<Sum>r\<leftarrow>rs. length (filter (\<lambda>c. pk c = fk r) cs)) = length rs"
    by (rule Cons.IH) (simp add: Cons.prems)
  with one show ?case by simp
qed

lemma concat_copies:
  assumes same: "\<And>c x. x \<in> set (F c) \<Longrightarrow> x = c" and short: "\<And>c. length (F c) \<le> 1"
  shows "concat (map F cs) = filter (\<lambda>c. F c \<noteq> []) cs"
proof (induction cs)
  case Nil
  show ?case by simp
next
  case (Cons c cs)
  have "F c = [] \<or> F c = [c]"
  proof (cases "F c")
    case Nil
    then show ?thesis by simp
  next
    case (Cons y ys)
    with short [of c] have "ys = []" by simp
    moreover have "y = c" by (rule same) (simp add: Cons)
    ultimately show ?thesis using Cons by simp
  qed
  with Cons.IH show ?case by auto
qed

lemma distinct_copies:
  assumes "distinct cs" and "\<And>c x. x \<in> set (F c) \<Longrightarrow> x = c" and "\<And>c. length (F c) \<le> 1"
  shows "distinct (concat (map F cs))"
  using assms(1) by (simp only: concat_copies [of F, OF assms(2,3)] distinct_filter)

lemma count_copies:
  "(\<And>x. x \<in> set xs \<Longrightarrow> x = m) \<Longrightarrow> count_list xs M = (if m = M then length xs else 0)"
  by (induction xs) auto

lemma sum_single:
  "distinct ms \<Longrightarrow>
     sum_list (map (\<lambda>m. if m = M then n m else 0) ms) = (if M \<in> set ms then n M else (0::nat))"
  by (induction ms) auto

lemma length_guarded_concat:
  "(\<And>r. length (F r) = (if T r then 1 else 0)) \<Longrightarrow>
     length (concat (map (\<lambda>r. if R r then F r else []) rs)) = length (filter (\<lambda>r. R r \<and> T r) rs)"
proof (induction rs)
  case Nil
  then show ?case by simp
next
  case (Cons a rs)
  from Cons.prems [of a] have "length (F a) = (if T a then 1 else 0)" .
  moreover from Cons have "length (concat (map (\<lambda>r. if R r then F r else []) rs))
      = length (filter (\<lambda>r. R r \<and> T r) rs)" by simp
  ultimately show ?case by (cases "T a") simp_all
qed

section \<open>Properties of the aggregate material view\<close>

lemma materials_mem:
  "M \<in> set (materials self d) \<longleftrightarrow> M \<in> set (material_table d) \<and> linking_rows self M d \<noteq> []"
  by (auto simp: materials_def linking_rows_def filter_empty_conv list_ex_iff)

lemma materials_copies: "materials self d = concat (map (linked_copies self d) (material_table d))"
  by (simp add: materials_def linked_copies_def [abs_def])

lemma linked_copies_same: "x \<in> set (linked_copies self d m) \<Longrightarrow> x = m"
  by (auto simp: linked_copies_def split: if_splits)

lemma length_step_hits:
  "length (concat (map (\<lambda>s. if s_pk s = k then if s_cookbook_id s = c then [m] else [] else []) ss))
     = length (filter (\<lambda>s. s_pk s = k \<and> s_cookbook_id s = c) ss)"
  by (induction ss) auto

lemma length_linked_copies:
  assumes "distinct (map s_pk (step_table d))"
  shows "length (linked_copies self d M) = length (linking_rows self M d)"
  unfolding linked_copies_def linking_rows_def
proof (rule length_guarded_concat)
  fix r :: MaterialStepRelationship
  show "length (concat (map (\<lambda>s. if s_pk s = msr_step_id r
            then if s_cookbook_id s = c_pk self then [M] else [] else []) (step_table d)))
     = (if list_ex (\<lambda>s. s_pk s = msr_step_id r \<and> s_cookbook_id s = c_pk self) (step_table d)
        then 1 else 0)"
    using unique_pk_hits [OF assms, of "msr_step_id r" "\<lambda>s. s_cookbook_id s = c_pk self"]
    by (simp only: length_step_hits)
qed

lemma count_materials:
  assumes "distinct (map m_pk (material_table d))" and "distinct (map s_pk (step_table d))"
  shows "count_list (materials self d) M
     = (if M \<in> set (material_table d) then length (linking_rows self M d) else 0)"
proof -
  from assms(1) have dm: "distinct (material_table d)" by (simp add: distinct_map)
  have "count_list (materials self d) M
      = sum_list (map (\<lambda>m. count_list (linked_copies self d m) M) (material_table d))"
    by (simp add: materials_copies count_list_concat comp_def)
  also have "\<dots> = sum_list (map (\<lambda>m. if m = M then length (linked_copies self d m) else 0)
      (material_table d))"
    using count_copies [OF linked_copies_same]
    by (intro arg_cong [where f = sum_list] map_cong) auto
  also have "\<dots> = (if M \<in> set (material_table d) then length (linked_copies self d M) else 0)"
    using dm by (rule sum_single)
  finally show ?thesis by (simp add: length_linked_copies [OF assms(2)])
qed

text \<open>
  Claim C1, as the code has it. \<open>materials\<close> contains a material exactly when the
  material is stored and some join row links it to a step of the cookbook. The query
  does not remove duplicates: with unique material and step keys, a stored material
  occurs in the result once for each join row that links it to a step of the
  cookbook, hence exactly once only when there is exactly one such row.
\<close>

theorem materials_per_join_row:
  "(M \<in> set (materials self d)
      \<longleftrightarrow> M \<in> set (material_table d) \<and> linking_rows self M d \<noteq> [])
   \<and> (distinct (map m_pk (material_table d)) \<and> distinct (map s_pk (step_table d))
        \<and> M \<in> set (material_table d)
      \<longrightarrow> count_list (materials self d) M = length (linking_rows self M d))"
  using materials_mem [of M self d] count_materials [of d self M] by simp

theorem materials_per_join_row_witness:
  "map m_pk (material_table kitchen) = [3, 2, 1]
   \<and> map s_pk (step_table kitchen) = [1, 2]
   \<and> linking_rows omelette salt kitchen = [link 1 1 1 5, link 4 2 1 1]
   \<and> linking_rows omelette pan kitchen = [link 5 2 3 0]
   \<and> count_list (materials omelette kitchen) salt = 2
   \<and> count_list (materials omelette kitchen) pan = 1
   \<and> pan \<in> set (materials omelette kitchen)"
proof -
  have pm: "map m_pk (material_table kitchen) = [3, 2, 1]" by code_simp
  have ps: "map s_pk (step_table kitchen) = [1, 2]" by code_simp
  have ls: "linking_rows omelette salt kitchen = [link 1 1 1 5, link 4 2 1 1]" by code_simp
  have lp: "linking_rows omelette pan kitchen = [link 5 2 3 0]" by code_simp
  have h1: "distinct (map m_pk (material_table kitchen))" unfolding pm by simp
  have h2: "distinct (map s_pk (step_table kitchen))" unfolding ps by simp
  have h3: "salt \<in> set (material_table kitchen)" by (simp add: kitchen_def)
  have h4: "pan \<in> set (material_table kitchen)" by (simp add: kitchen_def)
  from materials_per_join_row [of salt omelette kitchen] h1 h2 h3 ls
  have a: "count_list (materials omelette kitchen) salt = 2" by simp
  from materials_per_join_row [of pan omelette kitchen] h1 h2 h4 lp
  have b: "count_list (materials omelette kitchen) pan = 1
           \<and> pan \<in> set (materials omelette kitchen)" by simp
  from pm ps ls lp a b show ?thesis by simp
qed

text \<open>
  Claim C1 as written fails in the kitchen: beating and frying both use salt, each
  through one join row of its own, and the result lists salt twice.
\<close>

theorem materials_exactly_once_counterexample:
  "materials omelette kitchen = [pan, egg, egg, salt, salt]
   \<and> salt \<in> set (materials omelette kitchen)
   \<and> count_list (materials omelette kitchen) salt = 2
   \<and> \<not> distinct (materials omelette kitchen)"
proof -
  have m: "materials omelette kitchen = [pan, egg, egg, salt, salt]" by code_simp
  show ?thesis unfolding m by (simp add: pan_def egg_def salt_def)
qed

section \<open>Properties of the cached count\<close>

lemma cookbook_set_copies:
  "cookbook_set self d = concat (map (tagged_copies self d) (cookbook_table d))"
  by (simp add: cookbook_set_def tagged_copies_def [abs_def])

lemma tagged_copies_same: "x \<in> set (tagged_copies self d c) \<Longrightarrow> x = c"
  by (auto simp: tagged_copies_def split: if_splits)

lemma length_tagged_copies:
  "length (tagged_copies self d c)
     = length (filter (\<lambda>r. tcr_cookbook_id r = c_pk c) (tag_rows self d))"
proof -
  have "length (concat (map (\<lambda>r. if tcr_cookbook_id r = c_pk c
            then if tcr_tag_id r = tag_pk self then [c] else [] else []) rs))
      = length (filter (\<lambda>r. tcr_cookbook_id r = c_pk c)
          (filter (\<lambda>r. tcr_tag_id r = tag_pk self) rs))"
    for rs :: "TagCookbookRelationship list"
    by (induction rs) simp_all
  then show ?thesis by (simp add: tagged_copies_def tag_rows_def)
qed

lemma length_cookbook_set:
  "length (cookbook_set self d)
     = (\<Sum>c\<leftarrow>cookbook_table d.
          length (filter (\<lambda>r. tcr_cookbook_id r = c_pk c) (tag_rows self d)))"
  by (simp add: cookbook_set_copies length_concat comp_def length_tagged_copies)

lemma count_is_rows:
  assumes "distinct (map c_pk (cookbook_table d))"
    and "list_all (\<lambda>r. list_ex (\<lambda>c. c_pk c = tcr_cookbook_id r) (cookbook_table d))
           (tag_rows self d)"
  shows "length (cookbook_set self d) = length (tag_rows self d)"
proof -
  have "length (cookbook_set self d)
      = (\<Sum>c\<leftarrow>cookbook_table d.
           length (filter (\<lambda>r. tcr_cookbook_id r = c_pk c) (tag_rows self d)))"
    by (rule length_cookbook_set)
  also have "\<dots> = (\<Sum>r\<leftarrow>tag_rows self d.
           length (filter (\<lambda>c. c_pk c = tcr_cookbook_id r) (cookbook_table d)))"
    by (rule swap_count)
  also have "\<dots> = length (tag_rows self d)"
    using assms(2) by (intro one_per_row [OF assms(1)]) (simp add: list_all_iff)
  finally show ?thesis .
qed

lemma cookbook_set_distinct:
  assumes "distinct (map c_pk (cookbook_table d))"
    and "distinct (map tcr_cookbook_id (tag_rows self d))"
  shows "distinct (cookbook_set self d)"
  unfolding cookbook_set_copies
proof (rule distinct_copies)
  from assms(1) show "distinct (cookbook_table d)" by (simp add: distinct_map)
  show "x = c" if "x \<in> set (tagged_copies self d c)" for c x
    using that by (rule tagged_copies_same)
  show "length (tagged_copies self d c) \<le> 1" for c
    using at_most_one [OF assms(2), of "c_pk c"] by (simp only: length_tagged_copies)
qed

lemma count_is_distinct:
  assumes "distinct (map c_pk (cookbook_table d))"
    and "distinct (map tcr_cookbook_id (tag_rows self d))"
  shows "length (cookbook_set self d) = length (distinct_cookbooks self d)"
  using cookbook_set_distinct [OF assms] by (simp add: distinct_cookbooks_def distinct_remdups_id)

lemma update_cookbook_sum_result:
  "update_cookbook_sum self d =
     (self\<lparr>cookbook_sum := int (length (cookbook_set self d))\<rparr>,
      d\<lparr>tag_table := save_row tag_pk (self\<lparr>cookbook_sum := int (length (cookbook_set self d))\<rparr>)
            (tag_table d)\<rparr>)"
  by (simp add: update_cookbook_sum_def CookbookTag_save_def Let_def)

lemma save_row_only: "filter (\<lambda>r. pk r = pk x \<and> r \<noteq> x) (save_row pk x rows) = []"
  using save_row_same_pk [of _ pk x rows] by (auto simp: filter_empty_conv)

text \<open>
  Claim C2, as the code has it. \<open>update_cookbook_sum\<close> sets \<open>cookbook_sum\<close> to the
  number of results of the join of cookbooks and join rows of the tag, and saves the
  tag: afterwards the instance is stored and is the only row with its key. With
  unique cookbook keys and every join row of the tag naming a stored cookbook, that
  number is the number of join rows of the tag, duplicates included. It is the
  number of distinct associated cookbooks when no two join rows of the tag name the
  same cookbook.
\<close>

theorem update_cookbook_sum_counts_rows:
  "(case update_cookbook_sum self d of (self', d') \<Rightarrow>
      cookbook_sum self' = int (length (cookbook_set self d))
      \<and> tag_pk self' = tag_pk self
      \<and> self' \<in> set (tag_table d')
      \<and> filter (\<lambda>t. tag_pk t = tag_pk self \<and> t \<noteq> self') (tag_table d') = []
      \<and> (distinct (map c_pk (cookbook_table d))
           \<and> list_all (\<lambda>r. list_ex (\<lambda>c. c_pk c = tcr_cookbook_id r) (cookbook_table d))
                (tag_rows self d)
          \<longrightarrow> cookbook_sum self' = int (length (tag_rows self d)))
      \<and> (distinct (map c_pk (cookbook_table d))
           \<and> distinct (map tcr_cookbook_id (tag_rows self d))
          \<longrightarrow> cookbook_sum self' = int (length (distinct_cookbooks self d))))"
proof -
  define self' where "self' = self\<lparr>cookbook_sum := int (length (cookbook_set self d))\<rparr>"
  define d' where "d' = d\<lparr>tag_table := save_row tag_pk self' (tag_table d)\<rparr>"
  have res: "update_cookbook_sum self d = (self', d')"
    by (simp add: update_cookbook_sum_result self'_def d'_def)
  have 1: "cookbook_sum self' = int (length (cookbook_set self d))"
    and 2: "tag_pk self' = tag_pk self"
    by (simp_all add: self'_def)
  have 3: "self' \<in> set (tag_table d')"
    by (simp add: d'_def save_row_mem)
  have "filter (\<lambda>t. tag_pk t = tag_pk self' \<and> t \<noteq> self') (tag_table d') = []"
    by (simp add: d'_def save_row_only)
  with 2 have 4: "filter (\<lambda>t. tag_pk t = tag_pk self \<and> t \<noteq> self') (tag_table d') = []"
    by simp
  have 5: "cookbook_sum self' = int (length (tag_rows self d))"
    if "distinct (map c_pk (cookbook_table d))
        \<and> list_all (\<lambda>r. list_ex (\<lambda>c. c_pk c = tcr_cookbook_id r) (cookbook_table d))
             (tag_rows self d)"
    using that 1 by (simp add: count_is_rows)
  have 6: "cookbook_sum self' = int (length (distinct_cookbooks self d))"
    if "distinct (map c_pk (cookbook_table d))
        \<and> distinct (map tcr_cookbook_id (tag_rows self d))"
    using that 1 by (simp add: count_is_distinct)
  from 1 2 3 4 5 6 show ?thesis unfolding res by (simp only: prod.case) blast
qed

theorem update_cookbook_sum_counts_rows_witness:
  "map c_pk (cookbook_table tagged_twice) = [1]
   \<and> tag_rows quick tagged_twice = [tagging 1 1 1, tagging 2 1 1]
   \<and> update_cookbook_sum quick tagged_twice
       = (quick\<lparr>cookbook_sum := 2\<rparr>, tagged_twice\<lparr>tag_table := [quick\<lparr>cookbook_sum := 2\<rparr>]\<rparr>)
   \<and> map tcr_cookbook_id (tag_rows quick tagged_once) = [1]
   \<and> length (distinct_cookbooks quick tagged_once) = 1
   \<and> cookbook_sum (fst (update_cookbook_sum quick tagged_once)) = 1"
proof -
  have pc: "map c_pk (cookbook_table tagged_twice) = [1]" by code_simp
  have tr: "tag_rows quick tagged_twice = [tagging 1 1 1, tagging 2 1 1]" by code_simp
  have u2: "update_cookbook_sum quick tagged_twice
       = (quick\<lparr>cookbook_sum := 2\<rparr>, tagged_twice\<lparr>tag_table := [quick\<lparr>cookbook_sum := 2\<rparr>]\<rparr>)"
    by code_simp
  have h1: "distinct (map c_pk (cookbook_table tagged_twice))" unfolding pc by simp
  have h2: "list_all (\<lambda>r. list_ex (\<lambda>c. c_pk c = tcr_cookbook_id r) (cookbook_table tagged_twice))
      (tag_rows quick tagged_twice)" by code_simp
  from update_cookbook_sum_counts_rows [of quick tagged_twice] h1 h2 tr
  have a: "cookbook_sum (fst (update_cookbook_sum quick tagged_twice)) = 2"
    by (simp add: case_prod_beta)
  have pc1: "map c_pk (cookbook_table tagged_once) = [1]" by code_simp
  have tc1: "map tcr_cookbook_id (tag_rows quick tagged_once) = [1]" by code_simp
  have dc: "length (distinct_cookbooks quick tagged_once) = 1" by code_simp
  have h3: "distinct (map c_pk (cookbook_table tagged_once))" unfolding pc1 by simp
  have h4: "distinct (map tcr_cookbook_id (tag_rows quick tagged_once))" unfolding tc1 by simp
  from update_cookbook_sum_counts_rows [of quick tagged_once] h3 h4 dc
  have b: "cookbook_sum (fst (update_cookbook_sum quick tagged_once)) = 1"
    by (simp add: case_prod_beta)
  from pc tr u2 a tc1 dc b show ?thesis by simp
qed

text \<open>
  Claim C2 as written fails when the recipe is tagged twice with the same tag: one
  cookbook is associated, and the stored count is two.
\<close>

theorem cookbook_sum_distinct_counterexample:
  "distinct_cookbooks quick tagged_twice = [omelette]
   \<and> cookbook_sum (fst (update_cookbook_sum quick tagged_twice)) = 2
   \<and> map cookbook_sum (tag_table (snd (update_cookbook_sum quick tagged_twice))) = [2]
   \<and> cookbook_sum (fst (update_cookbook_sum quick tagged_twice))
       \<noteq> int (length (distinct_cookbooks quick tagged_twice))"
proof -
  have a: "distinct_cookbooks quick tagged_twice = [omelette]" by code_simp
  have b: "cookbook_sum (fst (update_cookbook_sum quick tagged_twice)) = 2" by code_simp
  have c: "map cookbook_sum (tag_table (snd (update_cookbook_sum quick tagged_twice))) = [2]"
    by code_simp
  from a b c show ?thesis by simp
qed

end
